theory Spec2Isabelle
  imports Complex_Main
begin

section \<open>JavaScript numbers\<close>

text \<open>
  A JavaScript number is a double.  The model keeps the finite numbers as exact reals and
  the three special values apart, so that a division by zero is what the program computes
  (an infinity or NaN) and not HOL's \<open>x / 0 = 0\<close>.  Rounding error of doubles and the sign
  of zero are not modelled: a zero divisor is read as \<open>+0\<close>.
\<close>

datatype jsnum = Fin real | PosInf | NegInf | NaN

fun neg_js :: "jsnum \<Rightarrow> jsnum" where
  "neg_js (Fin a) = Fin (- a)"
| "neg_js PosInf = NegInf"
| "neg_js NegInf = PosInf"
| "neg_js NaN = NaN"

fun add_js :: "jsnum \<Rightarrow> jsnum \<Rightarrow> jsnum" where
  "add_js (Fin a) (Fin b) = Fin (a + b)"
| "add_js NaN _ = NaN"
| "add_js _ NaN = NaN"
| "add_js PosInf NegInf = NaN"
| "add_js NegInf PosInf = NaN"
| "add_js PosInf _ = PosInf"
| "add_js _ PosInf = PosInf"
| "add_js NegInf _ = NegInf"
| "add_js _ NegInf = NegInf"

definition sub_js :: "jsnum \<Rightarrow> jsnum \<Rightarrow> jsnum" where
  "sub_js a b = add_js a (neg_js b)"

definition inf_of_sign :: "real \<Rightarrow> jsnum" where
  "inf_of_sign a = (if a = 0 then NaN else if 0 < a then PosInf else NegInf)"

fun mul_js :: "jsnum \<Rightarrow> jsnum \<Rightarrow> jsnum" where
  "mul_js (Fin a) (Fin b) = Fin (a * b)"
| "mul_js NaN _ = NaN"
| "mul_js _ NaN = NaN"
| "mul_js (Fin a) PosInf = inf_of_sign a"
| "mul_js (Fin a) NegInf = inf_of_sign (- a)"
| "mul_js PosInf (Fin b) = inf_of_sign b"
| "mul_js NegInf (Fin b) = inf_of_sign (- b)"
| "mul_js PosInf PosInf = PosInf"
| "mul_js NegInf NegInf = PosInf"
| "mul_js PosInf NegInf = NegInf"
| "mul_js NegInf PosInf = NegInf"

fun div_js :: "jsnum \<Rightarrow> jsnum \<Rightarrow> jsnum" where
  "div_js (Fin a) (Fin b) = (if b = 0 then inf_of_sign a else Fin (a / b))"
| "div_js NaN _ = NaN"
| "div_js _ NaN = NaN"
| "div_js (Fin a) _ = Fin 0"
| "div_js PosInf (Fin b) = (if 0 \<le> b then PosInf else NegInf)"
| "div_js NegInf (Fin b) = (if 0 \<le> b then NegInf else PosInf)"
| "div_js _ _ = NaN"

text \<open>\<open>Math.trunc\<close>: towards zero; the special values are returned as they are.\<close>

fun trunc_js :: "jsnum \<Rightarrow> jsnum" where
  "trunc_js (Fin a) = Fin (if 0 \<le> a then of_int \<lfloor>a\<rfloor> else of_int \<lceil>a\<rceil>)"
| "trunc_js x = x"

definition in_range :: "real \<Rightarrow> real \<Rightarrow> jsnum \<Rightarrow> bool" where
  "in_range lo hi x = (case x of Fin v \<Rightarrow> lo \<le> v \<and> v \<le> hi | _ \<Rightarrow> False)"

section \<open>JavaScript strings of numbers\<close>

text \<open>
  \<open>num.toFixed(0)\<close> returns a String, not a Number.  \<open>Decimal neg n\<close> is the string it
  returns for a number of rounded magnitude \<open>n\<close>, with a leading minus sign when \<open>neg\<close>:
  \<open>"64"\<close>, \<open>"-3"\<close>, \<open>"0"\<close> and also \<open>"-0"\<close>.  Below \<open>10\<^sup>2\<^sup>1\<close> the magnitude is written in
  decimal digits, which \<open>chars_of\<close> writes out; from \<open>10\<^sup>2\<^sup>1\<close> on JavaScript writes it in
  exponent notation (\<open>"1e+21"\<close>), which still denotes \<open>n\<close>.  Two such strings are the same
  sequence of characters exactly when sign and magnitude are the same; in particular
  \<open>"-0"\<close> and \<open>"0"\<close> are different strings.
\<close>

datatype jsstring = Decimal bool nat




text \<open>The number a string converts to where JavaScript needs a number (\<open>ToNumber\<close>).\<close>

fun StringToNumber :: "jsstring \<Rightarrow> jsnum" where
  "StringToNumber (Decimal neg n) = Fin (if neg then - real n else real n)"

text \<open>A value held by the slider: a Number or such a String.\<close>

datatype jsval = Num jsnum | Str jsstring

fun ToNumber :: "jsval \<Rightarrow> jsnum" where
  "ToNumber (Num a) = a"
| "ToNumber (Str s) = StringToNumber s"

text \<open>
  \<open>num.toFixed(0)\<close> on a finite number \<open>x\<close>: the sign is split off (\<open>"-"\<close> when
  \<open>x < 0\<close>) and the magnitude is rounded to the nearest integer, the larger one at a tie.
  So \<open>(-0.2).toFixed(0)\<close> is \<open>"-0"\<close>.  (A double of magnitude \<open>10\<^sup>2\<^sup>1\<close> or more is an
  integer already.)
\<close>

definition rounded_magnitude :: "real \<Rightarrow> nat" where
  "rounded_magnitude x = nat \<lfloor>\<bar>x\<bar> + 1 / 2\<rfloor>"

definition toFixed0 :: "real \<Rightarrow> jsstring" where
  "toFixed0 x = Decimal (x < 0) (rounded_magnitude x)"


section \<open>Constraint\<close>

text \<open>
  Modelled from the spec: the class \<open>Constraint\<close> (module \<open>util/constraint\<close>) is imported by
  the slider but its file is not among the sources.  The spec gives it the fields
  \<open>{min, max, transform}\<close>, the contract of \<open>apply\<close> (section 4.1) and an invariant
  (section 3):
  \<^item> clamp the raw value into \<open>[min, max]\<close>; if a transform is present, apply it to the
    clamped value;
  \<^item> a Constraint always returns a value within \<open>[min, max]\<close> after transform, or the
    transform's output is re-clamped;
  \<^item> a non-numeric input does not throw: it is rejected or clamped to the nearest bound.
  The raw value is read as a number (a String of a number as the number it writes).  The
  clamp is \<open>Math.min(Math.max(x, min), max)\<close>, which takes an infinity to a bound.  For NaN
  no bound is nearer than the other; the model clamps it to the lower bound, as it does
  \<open>-Infinity\<close>.  The transform gets the clamped number and may return a Number or a
  String; its result is returned as it is when it reads as a number within the bounds and
  is clamped again otherwise.
\<close>

record constraint =
  min_c :: real
  max_c :: real
  transform :: "(real \<Rightarrow> jsval) option"

definition clamp :: "real \<Rightarrow> real \<Rightarrow> real \<Rightarrow> real" where
  "clamp lo hi x = min (max x lo) hi"

fun clamp_js :: "real \<Rightarrow> real \<Rightarrow> jsnum \<Rightarrow> real" where
  "clamp_js lo hi (Fin x) = clamp lo hi x"
| "clamp_js lo hi PosInf = hi"
| "clamp_js lo hi NegInf = min lo hi"
| "clamp_js lo hi NaN = min lo hi"

definition Constraint_apply :: "constraint \<Rightarrow> jsval \<Rightarrow> jsval" where
  "Constraint_apply c x =
     (let clamped = clamp_js (min_c c) (max_c c) (ToNumber x);
          transformed = (case transform c of None \<Rightarrow> Num (Fin clamped) | Some t \<Rightarrow> t clamped)
      in if in_range (min_c c) (max_c c) (ToNumber transformed) then transformed
         else Num (Fin (clamp_js (min_c c) (max_c c) (ToNumber transformed))))"

section \<open>Observers and DOM listeners\<close>

text \<open>
  A context object and a callback function are JavaScript references; the model names
  each by a number, so that equality of numbers is reference identity.  Calling a
  callback is recorded: a call is the registry entry called and the argument it got.
\<close>

record observer =
  ctx :: nat
  func :: nat

datatype evtype = mousedown | mousemove | mouseup | touchstart | touchmove | touchend

text \<open>
  The listeners of one event target are a list of (event type, listener) pairs.
  \<open>addEventListener\<close> of the DOM discards a pair that is already there;
  \<open>removeEventListener\<close> removes it if present.
\<close>

definition addEventListener :: "'a \<Rightarrow> 'a list \<Rightarrow> 'a list" where
  "addEventListener l ls = (if l \<in> set ls then ls else ls @ [l])"

definition removeEventListener :: "'a \<Rightarrow> 'a list \<Rightarrow> 'a list" where
  "removeEventListener l ls = removeAll l ls"

text \<open>
  An event as the handlers read it: its type, its target element (\<open>e.target\<close>) and the
  pointer's client row (\<open>e.clientY\<close>).
\<close>

record 'n dom_event =
  ev_type :: evtype
  target :: 'n
  clientY :: real

section \<open>Slider\<close>

record options =
  minVal :: real
  maxVal :: real
  sliderBodyColor :: string
  sliderHandleColor :: string
  mouseSensitivity :: real

text \<open>The constructor's argument \<open>o\<close>: a field the caller leaves out is \<open>None\<close>.\<close>

record options_in =
  minVal_in :: "real option"
  maxVal_in :: "real option"
  sliderBodyColor_in :: "string option"
  sliderHandleColor_in :: "string option"
  mouseSensitivity_in :: "real option"

record dims =
  offsetBottom :: real
  offsetTop :: real
  bodyWidth :: real
  handleWidth :: real
  handleHeight :: real

text \<open>
  The base class \<open>Widget\<close> (module \<open>ui/core/widget\<close>) is not among the sources.  Its
  geometry helpers \<open>_getWidth()\<close>, \<open>_getHeight()\<close> and \<open>_getRelativeY(y)\<close> read the
  container's layout; the model takes what they return as parameters.
\<close>

record container =
  getWidth :: real
  getHeight :: real
  getRelativeY :: "real \<Rightarrow> real"

record state =
  val :: jsval

text \<open>A state delta \<open>{val: v}\<close>, or \<open>{}\<close> when the field is left out.\<close>

record delta =
  d_val :: "jsval option"

datatype handler = Ref_touchBody | Ref_touchHandle | Ref_moveHandle | Ref_releaseHandle

record slider =
  opts :: options
  stateConstraints :: constraint
  state :: state
  dims :: dims
  geom :: container
  observers :: "observer list"
  calls :: "(observer \<times> jsval) list"
  bodyListeners :: "(evtype \<times> handler) list"
  overlayListeners :: "(evtype \<times> handler) list"
  handleListeners :: "(evtype \<times> handler) list"

text \<open>
  Modelled from the spec: \<open>Widget._initOptions(o)\<close>, called by the slider's
  \<open>_initOptions\<close> after it has set the defaults.  Supplied values override defaults;
  unspecified fields take defaults.
\<close>

definition Widget_initOptions :: "options \<Rightarrow> options_in \<Rightarrow> options" where
  "Widget_initOptions dflt oi =
     \<lparr> minVal = (case minVal_in oi of Some v \<Rightarrow> v | None \<Rightarrow> minVal dflt),
       maxVal = (case maxVal_in oi of Some v \<Rightarrow> v | None \<Rightarrow> maxVal dflt),
       sliderBodyColor =
         (case sliderBodyColor_in oi of Some v \<Rightarrow> v | None \<Rightarrow> sliderBodyColor dflt),
       sliderHandleColor =
         (case sliderHandleColor_in oi of Some v \<Rightarrow> v | None \<Rightarrow> sliderHandleColor dflt),
       mouseSensitivity =
         (case mouseSensitivity_in oi of Some v \<Rightarrow> v | None \<Rightarrow> mouseSensitivity dflt) \<rparr>"

definition initOptions :: "options_in \<Rightarrow> options" where
  "initOptions oi =
     Widget_initOptions
       \<lparr> minVal = 0, maxVal = 127, sliderBodyColor = ''#484848'',
         sliderHandleColor = ''#484848'', mouseSensitivity = 12 / 10 \<rparr> oi"

definition initStateConstraints :: "options \<Rightarrow> constraint" where
  "initStateConstraints ops =
     \<lparr> min_c = minVal ops, max_c = maxVal ops, transform = Some (\<lambda>num. Str (toFixed0 num)) \<rparr>"

definition initState :: "options \<Rightarrow> state" where
  "initState ops = \<lparr> val = Num (Fin (minVal ops)) \<rparr>"

definition initDims :: dims where
  "initDims = \<lparr> offsetBottom = 5, offsetTop = 5, bodyWidth = 2, handleWidth = 10,
                handleHeight = 10 \<rparr>"

text \<open>
  The constructor runs the lifecycle of the base class: options, constraints, state,
  render tree, handlers.  \<open>_initHandlers\<close> attaches \<open>touchBody\<close> to the overlay and
  \<open>touchHandle\<close> to the handle; nothing is attached to \<open>document.body\<close> yet.
\<close>

definition Slider :: "container \<Rightarrow> options_in \<Rightarrow> slider" where
  "Slider cont oi =
     (let ops = initOptions oi in
      \<lparr> opts = ops,
        stateConstraints = initStateConstraints ops,
        state = initState ops,
        dims = initDims,
        geom = cont,
        observers = [],
        calls = [],
        bodyListeners = [],
        overlayListeners = [(mousedown, Ref_touchBody), (touchstart, Ref_touchBody)],
        handleListeners = [(mousedown, Ref_touchHandle), (touchstart, Ref_touchHandle)] \<rparr>)"

subsection \<open>The mutation protocol of the base class\<close>

text \<open>
  Modelled from the spec: \<open>setInternalState\<close>, \<open>setState\<close> and the observer registry of
  \<open>Widget\<close>.  \<open>setInternalState(delta)\<close> validates the delta through the constraint of
  each field, merges it into the state and re-renders; \<open>setState(delta)\<close> does the same
  and then notifies all observers with the new value.  The render tree is a function of
  the state (see \<open>calcSliderHandlePoints\<close> below), so re-rendering changes nothing the
  model keeps.
\<close>

definition ConstraintSpec_apply :: "constraint \<Rightarrow> delta \<Rightarrow> delta" where
  "ConstraintSpec_apply c d = \<lparr> d_val = map_option (Constraint_apply c) (d_val d) \<rparr>"

definition merge :: "delta \<Rightarrow> state \<Rightarrow> state" where
  "merge d st = (case d_val d of None \<Rightarrow> st | Some v \<Rightarrow> st\<lparr>val := v\<rparr>)"

definition setInternalState :: "delta \<Rightarrow> slider \<Rightarrow> slider" where
  "setInternalState d s = s\<lparr>state := merge (ConstraintSpec_apply (stateConstraints s) d) (state s)\<rparr>"

definition getVal :: "slider \<Rightarrow> jsval" where
  "getVal s = val (state s)"

definition Widget_notifyObservers :: "slider \<Rightarrow> slider" where
  "Widget_notifyObservers s = s\<lparr>calls := calls s @ map (\<lambda>ob. (ob, getVal s)) (observers s)\<rparr>"

definition setState :: "delta \<Rightarrow> slider \<Rightarrow> slider" where
  "setState d s = Widget_notifyObservers (setInternalState d s)"

definition Widget_subscribe :: "nat \<Rightarrow> nat \<Rightarrow> slider \<Rightarrow> slider" where
  "Widget_subscribe c f s = s\<lparr>observers := observers s @ [\<lparr>ctx = c, func = f\<rparr>]\<rparr>"

subsection \<open>Public API\<close>

definition setInternalVal :: "jsval \<Rightarrow> slider \<Rightarrow> slider" where
  "setInternalVal newVal s = setInternalState \<lparr> d_val = Some newVal \<rparr> s"

definition setVal :: "jsval \<Rightarrow> slider \<Rightarrow> slider" where
  "setVal newVal s = setState \<lparr> d_val = Some newVal \<rparr> s"

subsection \<open>Helper methods\<close>

definition calcSliderBodyHeight :: "slider \<Rightarrow> real" where
  "calcSliderBodyHeight s = getHeight (geom s) - offsetTop (dims s) - offsetBottom (dims s)"

text \<open>
  \<open>_calcSliderHandlePoints\<close> returns the string \<open>"x0,y0 x1,y1 x2,y2"\<close>; the model returns
  the three points.  \<open>handleY\<close> is its \<open>y0\<close>, the pixel row of the handle's tip.  The
  division converts \<open>state.val\<close> to a number when it is a String.
\<close>

definition handleY :: "slider \<Rightarrow> jsnum" where
  "handleY s =
     (let sliderBodyHeight = calcSliderBodyHeight s in
      add_js
        (sub_js (Fin sliderBodyHeight)
           (mul_js (div_js (ToNumber (val (state s))) (Fin (maxVal (opts s) - minVal (opts s))))
              (Fin sliderBodyHeight)))
        (Fin (offsetBottom (dims s))))"

definition calcSliderHandlePoints :: "slider \<Rightarrow> (jsnum \<times> jsnum) \<times> (jsnum \<times> jsnum) \<times> (jsnum \<times> jsnum)" where
  "calcSliderHandlePoints s =
     (let x0 = Fin (getWidth (geom s) / 2 + 1);
          y0 = handleY s;
          x1 = add_js x0 (Fin (handleWidth (dims s)));
          y1 = sub_js y0 (Fin (handleHeight (dims s) / 2));
          x2 = x1;
          y2 = add_js y0 (Fin (handleHeight (dims s) / 2))
      in ((x0, y0), (x1, y1), (x2, y2)))"

definition calcTouchVal :: "slider \<Rightarrow> real \<Rightarrow> jsnum" where
  "calcTouchVal s y =
     (let valRange = maxVal (opts s) - minVal (opts s);
          bodyY = (getHeight (geom s) - getRelativeY (geom s) y) - offsetBottom (dims s);
          touchVal =
            add_js (mul_js (div_js (Fin bodyY) (Fin (calcSliderBodyHeight s))) (Fin valRange))
              (Fin (minVal (opts s)))
      in touchVal)"

subsection \<open>Mouse and touch handlers\<close>

definition touchHandle :: "slider \<Rightarrow> slider" where
  "touchHandle s =
     s\<lparr>bodyListeners :=
         addEventListener (touchend, Ref_releaseHandle)
           (addEventListener (mouseup, Ref_releaseHandle)
              (addEventListener (touchmove, Ref_moveHandle)
                 (addEventListener (mousemove, Ref_moveHandle) (bodyListeners s))))\<rparr>"

definition touchBody :: "'n dom_event \<Rightarrow> slider \<Rightarrow> slider" where
  "touchBody ev s =
     (let newVal = calcTouchVal s (clientY ev) in
      touchHandle (setState \<lparr> d_val = Some (Num newVal) \<rparr> s))"

definition moveHandle :: "'n dom_event \<Rightarrow> slider \<Rightarrow> slider" where
  "moveHandle ev s =
     (let newVal = calcTouchVal s (clientY ev) in setState \<lparr> d_val = Some (Num newVal) \<rparr> s)"

definition releaseHandle :: "slider \<Rightarrow> slider" where
  "releaseHandle s =
     s\<lparr>bodyListeners :=
         removeEventListener (touchend, Ref_releaseHandle)
           (removeEventListener (mouseup, Ref_releaseHandle)
              (removeEventListener (mousemove, Ref_moveHandle)
                 (removeEventListener (touchmove, Ref_moveHandle) (bodyListeners s))))\<rparr>"

subsection \<open>Event dispatch\<close>

text \<open>
  A pointer event reaches one of three targets of the slider: its overlay, its handle, or
  \<open>document.body\<close>.  The handlers of the overlay and of the handle stop propagation, so
  an event on them never reaches the body.  The listeners of the target are read when
  the dispatch starts and those of the event's type run in order.
\<close>

datatype el = Overlay | Handle | Body

type_synonym pointer_event = "el dom_event"

fun run_handler :: "handler \<Rightarrow> pointer_event \<Rightarrow> slider \<Rightarrow> slider" where
  "run_handler Ref_touchBody ev s = touchBody ev s"
| "run_handler Ref_touchHandle ev s = touchHandle s"
| "run_handler Ref_moveHandle ev s = moveHandle ev s"
| "run_handler Ref_releaseHandle ev s = releaseHandle s"

definition listeners_of :: "el \<Rightarrow> slider \<Rightarrow> (evtype \<times> handler) list" where
  "listeners_of e s =
     (case e of Overlay \<Rightarrow> overlayListeners s | Handle \<Rightarrow> handleListeners s
      | Body \<Rightarrow> bodyListeners s)"

definition dispatch :: "pointer_event \<Rightarrow> slider \<Rightarrow> slider" where
  "dispatch ev s =
     fold (\<lambda>h. run_handler h ev)
       (map snd (filter (\<lambda>l. fst l = ev_type ev) (listeners_of (target ev) s))) s"

text \<open>
  A drag cycle: a pointer-down on the overlay or on the handle, by mouse or by touch;
  any number of moves and then a release, each reaching the body by mouse or by touch.
\<close>

definition is_down :: "pointer_event \<Rightarrow> bool" where
  "is_down ev =
     ((target ev = Overlay \<or> target ev = Handle)
      \<and> (ev_type ev = mousedown \<or> ev_type ev = touchstart))"

definition is_move :: "pointer_event \<Rightarrow> bool" where
  "is_move ev = (target ev = Body \<and> (ev_type ev = mousemove \<or> ev_type ev = touchmove))"

definition is_up :: "pointer_event \<Rightarrow> bool" where
  "is_up ev = (target ev = Body \<and> (ev_type ev = mouseup \<or> ev_type ev = touchend))"

definition drag_cycle :: "pointer_event \<Rightarrow> pointer_event list \<Rightarrow> pointer_event \<Rightarrow> slider \<Rightarrow> slider" where
  "drag_cycle down moves up s = dispatch up (fold dispatch moves (dispatch down s))"

subsection \<open>Sequences of mutations\<close>

datatype mutation = SetState delta | SetInternalState delta

fun perform :: "mutation \<Rightarrow> slider \<Rightarrow> slider" where
  "perform (SetState d) s = setState d s"
| "perform (SetInternalState d) s = setInternalState d s"

fun delta_of :: "mutation \<Rightarrow> delta" where
  "delta_of (SetState d) = d"
| "delta_of (SetInternalState d) = d"

subsection \<open>Concrete inputs\<close>

text \<open>
  An options argument with no field, and a container 20 pixels wide and 110 high whose
  top edge is at client row 0, so that the slider body is 100 pixels high.
\<close>

definition no_options :: options_in where
  "no_options =
     \<lparr> minVal_in = None, maxVal_in = None, sliderBodyColor_in = None,
       sliderHandleColor_in = None, mouseSensitivity_in = None \<rparr>"

definition plain_container :: container where
  "plain_container = \<lparr> getWidth = 20, getHeight = 110, getRelativeY = (\<lambda>y. y) \<rparr>"

section \<open>LiveDropMenu\<close>

subsection \<open>Values the constructor reads\<close>

text \<open>
  The constructor's argument \<open>o\<close>.  A key the caller leaves out is \<open>None\<close>; the styling
  values are strings.  \<open>o.container\<close> only says where the closed box is put and is left
  to the layout below.
\<close>

record menu_options =
  o_menuItems :: "string list option"
  o_backgroundColor :: "string option"
  o_UIbackgroundColor :: "string option"
  o_fontColor :: "string option"
  o_UIfontColor :: "string option"
  o_fontSize :: "string option"
  o_UIfontSize :: "string option"
  o_fontFamily :: "string option"
  o_UIfontFamily :: "string option"
  o_menuItemFontSize :: "string option"
  o_UImenuItemFontSize :: "string option"
  o_menuItemFontFamily :: "string option"
  o_UImenuItemFontFamily :: "string option"
  o_selectedItemBackgroundColor :: "string option"
  o_UIselectedItemBackgroundColor :: "string option"
  o_selectedItemFontColor :: "string option"

text \<open>
  JavaScript's \<open>a || b\<close> on such values: \<open>a\<close> when it is truthy, that is, defined and
  not the empty string; otherwise \<open>b\<close>.  \<open>or_lit\<close> is the last link of a chain, whose
  right operand is a string literal.
\<close>

definition truthy :: "string option \<Rightarrow> bool" where
  "truthy a = (case a of None \<Rightarrow> False | Some s \<Rightarrow> s \<noteq> [])"

definition or_js :: "string option \<Rightarrow> string option \<Rightarrow> string option" where
  "or_js a b = (if truthy a then a else b)"

definition or_lit :: "string option \<Rightarrow> string \<Rightarrow> string" where
  "or_lit a d = (case a of None \<Rightarrow> d | Some s \<Rightarrow> if s \<noteq> [] then s else d)"

text \<open>
  What the layout engine reports when the program asks: the bounding rectangle of the
  closed box (\<open>_canvas.getBoundingClientRect()\<close>) and the top of the overlay
  (\<open>_ddCanvas.getBoundingClientRect().top\<close>).  The layout is an input of every step.
\<close>

record layout =
  canvas_left :: real
  canvas_bottom :: real
  ddCanvas_top :: real

subsection \<open>parseInt\<close>

text \<open>
  \<open>parseInt(string)\<close> with no radix: leading white space is skipped, then an optional
  sign, then an optional \<open>0x\<close> (radix 16, else 10), then the longest run of digits of the
  radix; NaN when that run is empty.  A string is a list of bytes here, so only the ASCII
  white space is known.
\<close>

definition isWhiteSpace :: "char \<Rightarrow> bool" where
  "isWhiteSpace c = ((of_char c :: nat) \<in> set [9, 10, 11, 12, 13, 32])"

definition digitValue :: "char \<Rightarrow> nat option" where
  "digitValue c =
     (let n = (of_char c :: nat) in
      if 48 \<le> n \<and> n \<le> 57 then Some (n - 48)
      else if 97 \<le> n \<and> n \<le> 122 then Some (n - 87)
      else if 65 \<le> n \<and> n \<le> 90 then Some (n - 55)
      else None)"

fun digits :: "nat \<Rightarrow> string \<Rightarrow> nat list" where
  "digits R [] = []"
| "digits R (c # cs) =
     (case digitValue c of
        Some d \<Rightarrow> if d < R then d # digits R cs else []
      | None \<Rightarrow> [])"

definition number_of_digits :: "nat \<Rightarrow> nat list \<Rightarrow> nat" where
  "number_of_digits R ds = foldl (\<lambda>acc d. acc * R + d) 0 ds"

definition parseInt :: "string \<Rightarrow> jsnum" where
  "parseInt str =
     (let s1 = dropWhile isWhiteSpace str;
          signed =
            (case s1 of
               [] \<Rightarrow> (False, s1)
             | c # cs \<Rightarrow>
                 if c = CHR ''-'' then (True, cs)
                 else if c = CHR ''+'' then (False, cs)
                 else (False, s1));
          s2 = snd signed;
          prefixed =
            (case s2 of
               a # b # cs \<Rightarrow>
                 if a = CHR ''0'' \<and> (b = CHR ''x'' \<or> b = CHR ''X'') then (16, cs)
                 else (10, s2)
             | _ \<Rightarrow> (10, s2));
          ds = digits (fst prefixed) (snd prefixed)
      in if ds = [] then NaN
         else Fin ((if fst signed then - 1 else 1)
                     * real (number_of_digits (fst prefixed) ds)))"

subsection \<open>The widget\<close>

datatype visibility = visible | hidden

datatype node = Canvas | DdCanvas | Elsewhere

datatype listener =
  Ref_mouseDownListener | Ref_secondMouseDownListener | Ref_mouseMoveListener
  | Ref_mouseUpListener

text \<open>
  The fields of an instance; \<open>p_x\<close> is the field \<open>_x\<close> of the source.  Of the two
  canvases the model keeps what the handlers write: the overlay's visibility, its style
  position (in pixels) and its height; and the listeners attached to the closed box, to
  the overlay and to \<open>document\<close>.  \<open>menu_calls\<close> records the calls of observers.
\<close>

record dropmenu =
  p_observers :: "observer list"
  p_menuItems :: "string list"
  p_selectedItemNum :: jsnum
  p_hoverItemNum :: jsnum
  p_UIbackgroundColor :: string
  p_UIfontColor :: string
  p_UIfontSize :: string
  p_UIfontFamily :: string
  p_UImenuItemFontSize :: string
  p_UImenuItemFntFamily :: string
  p_UIselectedItemBackgroundColor :: string
  p_UIselectedItemFontColor :: string
  ddCanvas_visibility :: visibility
  ddCanvas_style_left :: real
  ddCanvas_style_top :: real
  ddCanvas_height :: jsnum
  canvasListeners :: "(evtype \<times> listener) list"
  ddCanvasListeners :: "(evtype \<times> listener) list"
  documentListeners :: "(evtype \<times> listener) list"
  menu_calls :: "(observer \<times> jsnum) list"

definition menuItemHeight :: "string \<Rightarrow> jsnum" where
  "menuItemHeight menuItemFontSize = mul_js (parseInt menuItemFontSize) (Fin 2)"

definition getMenuItemHeight :: "dropmenu \<Rightarrow> jsnum" where
  "getMenuItemHeight m = menuItemHeight (p_UImenuItemFontSize m)"

text \<open>
  The height of \<open>_getDdCanvasDimensions()\<close>.  (Its width is the widest measured label
  plus 20; text measuring belongs to the canvas and the width is not modelled.)
\<close>

definition getDdCanvasHeight :: "string \<Rightarrow> string list \<Rightarrow> jsnum" where
  "getDdCanvasHeight menuItemFontSize items =
     mul_js (menuItemHeight menuItemFontSize) (Fin (real (length items)))"

definition LiveDropMenu :: "layout \<Rightarrow> menu_options \<Rightarrow> dropmenu" where
  "LiveDropMenu lay opt =
     (let items = (case o_menuItems opt of Some xs \<Rightarrow> xs | None \<Rightarrow> []);
          menuItemFontSize =
            or_lit (or_js (o_menuItemFontSize opt) (o_UImenuItemFontSize opt)) ''12px''
      in
      \<lparr> p_observers = [],
        p_menuItems = items,
        p_selectedItemNum = Fin 0,
        p_hoverItemNum = Fin (- 1),
        p_UIbackgroundColor =
          or_lit (or_js (o_backgroundColor opt) (o_UIbackgroundColor opt)) ''#555'',
        p_UIfontColor = or_lit (or_js (o_fontColor opt) (o_UIfontColor opt)) ''#bbb'',
        p_UIfontSize = or_lit (or_js (o_fontSize opt) (o_UIfontSize opt)) ''12px'',
        p_UIfontFamily = or_lit (or_js (o_fontFamily opt) (o_UIfontFamily opt)) ''Arial'',
        p_UImenuItemFontSize = menuItemFontSize,
        p_UImenuItemFntFamily =
          or_lit (or_js (o_menuItemFontFamily opt) (o_UImenuItemFontFamily opt)) ''Arial'',
        p_UIselectedItemBackgroundColor =
          or_lit (or_js (o_selectedItemBackgroundColor opt) (o_UIselectedItemBackgroundColor opt))
            ''#ccc'',
        p_UIselectedItemFontColor =
          or_lit (or_js (o_selectedItemFontColor opt) (o_UIselectedItemBackgroundColor opt))
            ''#fff'',
        ddCanvas_visibility = hidden,
        ddCanvas_style_left = canvas_left lay,
        ddCanvas_style_top = canvas_bottom lay,
        ddCanvas_height = getDdCanvasHeight menuItemFontSize items,
        canvasListeners = [(mousedown, Ref_mouseDownListener)],
        ddCanvasListeners = [],
        documentListeners = [],
        menu_calls = [] \<rparr>)"

text \<open>The setter of \<open>menuItems\<close>.\<close>

definition set_menuItems :: "string list \<Rightarrow> dropmenu \<Rightarrow> dropmenu" where
  "set_menuItems newMenuItems m =
     m\<lparr>p_menuItems := newMenuItems,
       ddCanvas_height := getDdCanvasHeight (p_UImenuItemFontSize m) newMenuItems\<rparr>"




subsection \<open>Observer support\<close>

definition subscribe :: "nat \<Rightarrow> nat \<Rightarrow> dropmenu \<Rightarrow> dropmenu" where
  "subscribe c f m = m\<lparr>p_observers := p_observers m @ [\<lparr> ctx = c, func = f \<rparr>]\<rparr>"

text \<open>
  Reading a property of an instance by its name.  An instance has the fields the
  constructor assigns (each name starts with an underscore), the accessor \<open>menuItems\<close>
  and the methods of the class; a read of any other name yields \<open>undefined\<close>.  Only the
  observer array is told apart from the other values.
\<close>

datatype js_value = Undefined | ObserverArray "observer list" | OtherValue

definition other_property_names :: "string list" where
  "other_property_names =
     [''_menuItems'', ''_selectedItemNum'', ''_hoverItemNum'', ''_UIbackgroundColor'',
      ''_UIfontColor'', ''_UIfontSize'', ''_UIfontFamily'', ''_UImenuItemFontSize'',
      ''_UImenuItemFntFamily'', ''_UIselectedItemBackgroundColor'',
      ''_UIselectedItemFontColor'', ''_container'', ''_canvas'', ''_ctx'', ''_ddCanvas'',
      ''_ddCtx'', ''menuItems'', ''constructor'', ''_drawUI'', ''_drawClosedMenuBox'',
      ''_drawDropDownMenuBox'', ''_getDdCanvasDimensions'', ''_getMenuItemHeight'',
      ''_assignListeners'', ''subscribe'', ''unsubscribe'', ''notifyObservers'']"

definition getProperty :: "dropmenu \<Rightarrow> string \<Rightarrow> js_value" where
  "getProperty m name =
     (if name = ''_observers'' then ObserverArray (p_observers m)
      else if name \<in> set other_property_names then OtherValue
      else Undefined)"

text \<open>
  \<open>unsubscribe\<close> reads \<open>this.observers\<close> and calls its \<open>filter\<close>.  Reading \<open>filter\<close> of
  \<open>undefined\<close> throws a TypeError.  What \<open>filter\<close> would be on a value that is no observer
  array is outside the model.
\<close>

datatype js_error = TypeError | NotModelled

definition unsubscribe :: "nat \<Rightarrow> nat \<Rightarrow> dropmenu \<Rightarrow> js_error + dropmenu" where
  "unsubscribe c f m =
     (case getProperty m ''observers'' of
        Undefined \<Rightarrow> Inl TypeError
      | ObserverArray obs \<Rightarrow>
          Inr (m\<lparr>p_observers := filter (\<lambda>observer. ctx observer \<noteq> c \<or> func observer \<noteq> f) obs\<rparr>)
      | OtherValue \<Rightarrow> Inl NotModelled)"

definition notifyObservers :: "dropmenu \<Rightarrow> dropmenu" where
  "notifyObservers m =
     m\<lparr>menu_calls := menu_calls m @ map (\<lambda>ob. (ob, p_selectedItemNum m)) (p_observers m)\<rparr>"

subsection \<open>UI interaction\<close>

text \<open>\<open>a !== b\<close> on numbers: NaN differs from everything, itself included.\<close>

definition strict_neq :: "jsnum \<Rightarrow> jsnum \<Rightarrow> bool" where
  "strict_neq a b = (a = NaN \<or> b = NaN \<or> a \<noteq> b)"

type_synonym mouse_event = "node dom_event"

definition mouseDownListener :: "dropmenu \<Rightarrow> dropmenu" where
  "mouseDownListener m =
     m\<lparr>ddCanvas_visibility := visible,
       ddCanvasListeners := addEventListener (mousemove, Ref_mouseMoveListener) (ddCanvasListeners m),
       documentListeners :=
         addEventListener (mousedown, Ref_secondMouseDownListener) (documentListeners m)\<rparr>"

definition secondMouseDownListener :: "mouse_event \<Rightarrow> dropmenu \<Rightarrow> dropmenu" where
  "secondMouseDownListener e m =
     (if target e \<noteq> Canvas
      then m\<lparr>documentListeners :=
               addEventListener (mouseup, Ref_mouseUpListener) (documentListeners m)\<rparr>
      else m)"

definition mouseMoveListener :: "layout \<Rightarrow> mouse_event \<Rightarrow> dropmenu \<Rightarrow> dropmenu" where
  "mouseMoveListener lay e m =
     (let ddCanvasY = clientY e - ddCanvas_top lay in
      m\<lparr>p_hoverItemNum := trunc_js (div_js (Fin ddCanvasY) (getMenuItemHeight m))\<rparr>)"

definition mouseUpListener :: "mouse_event \<Rightarrow> dropmenu \<Rightarrow> dropmenu" where
  "mouseUpListener e m =
     (let m1 = m\<lparr>ddCanvas_visibility := hidden\<rparr>;
          m2 = (if strict_neq (p_hoverItemNum m1) (Fin (- 1)) \<and> target e = DdCanvas
                then notifyObservers (m1\<lparr>p_selectedItemNum := p_hoverItemNum m1\<rparr>)
                else m1);
          m3 = m2\<lparr>p_hoverItemNum := Fin (- 1)\<rparr>
      in m3\<lparr>documentListeners :=
              removeEventListener (mouseup, Ref_mouseUpListener) (documentListeners m3)\<rparr>)"

subsection \<open>Event dispatch\<close>

text \<open>
  A mouse event runs the listeners of its type on its target and then, bubbling, those on
  \<open>document\<close>; the listeners of \<open>document\<close> are read when the event arrives there, so one
  added on the way already runs.  Nothing in this widget stops propagation.
\<close>

fun run_listener :: "listener \<Rightarrow> layout \<Rightarrow> mouse_event \<Rightarrow> dropmenu \<Rightarrow> dropmenu" where
  "run_listener Ref_mouseDownListener lay e m = mouseDownListener m"
| "run_listener Ref_secondMouseDownListener lay e m = secondMouseDownListener e m"
| "run_listener Ref_mouseMoveListener lay e m = mouseMoveListener lay e m"
| "run_listener Ref_mouseUpListener lay e m = mouseUpListener e m"

definition fire :: "(evtype \<times> listener) list \<Rightarrow> layout \<Rightarrow> mouse_event \<Rightarrow> dropmenu \<Rightarrow> dropmenu" where
  "fire ls lay e m =
     fold (\<lambda>l. run_listener l lay e) (map snd (filter (\<lambda>l. fst l = ev_type e) ls)) m"

definition listeners_on :: "node \<Rightarrow> dropmenu \<Rightarrow> (evtype \<times> listener) list" where
  "listeners_on n m =
     (case n of Canvas \<Rightarrow> canvasListeners m | DdCanvas \<Rightarrow> ddCanvasListeners m
      | Elsewhere \<Rightarrow> [])"

definition dispatch_menu :: "layout \<Rightarrow> mouse_event \<Rightarrow> dropmenu \<Rightarrow> dropmenu" where
  "dispatch_menu lay e m =
     (let m1 = fire (listeners_on (target e) m) lay e m
      in fire (documentListeners m1) lay e m1)"

text \<open>A run of events, each with the layout of its moment.\<close>

definition run_menu :: "(layout \<times> mouse_event) list \<Rightarrow> dropmenu \<Rightarrow> dropmenu" where
  "run_menu evs m = fold (\<lambda>le. dispatch_menu (fst le) (snd le)) evs m"

subsection \<open>Concrete inputs\<close>

definition no_menu_options :: menu_options where
  "no_menu_options =
     \<lparr> o_menuItems = None, o_backgroundColor = None, o_UIbackgroundColor = None,
       o_fontColor = None, o_UIfontColor = None, o_fontSize = None, o_UIfontSize = None,
       o_fontFamily = None, o_UIfontFamily = None, o_menuItemFontSize = None,
       o_UImenuItemFontSize = None, o_menuItemFontFamily = None,
       o_UImenuItemFontFamily = None, o_selectedItemBackgroundColor = None,
       o_UIselectedItemBackgroundColor = None, o_selectedItemFontColor = None \<rparr>"

text \<open>
  The closed box at the page's top left, 20 pixels high, the overlay right below it; the
  same box after the page has moved it 50 pixels right and 80 down.
\<close>

definition layout_A :: layout where
  "layout_A = \<lparr> canvas_left = 0, canvas_bottom = 20, ddCanvas_top = 20 \<rparr>"

definition layout_B :: layout where
  "layout_B = \<lparr> canvas_left = 50, canvas_bottom = 100, ddCanvas_top = 20 \<rparr>"

definition menu_ABC :: dropmenu where
  "menu_ABC = LiveDropMenu layout_A (no_menu_options\<lparr>o_menuItems := Some [''A'', ''B'', ''C'']\<rparr>)"

definition mouse :: "evtype \<Rightarrow> node \<Rightarrow> real \<Rightarrow> mouse_event" where
  "mouse ty n y = \<lparr> ev_type = ty, target = n, clientY = y \<rparr>"

subsection \<open>Concrete runs\<close>

text \<open>
  Three runs of the menu \<open>[A, B, C]\<close>, whose rows are 24 pixels high and whose overlay
  spans the client rows 20 to 92.

  \<open>click_cycle\<close>: a press on the closed box opens the menu, the pointer moves to the third
  row, a press and a release there close it.

  \<open>beyond_last_row\<close>: the move and the release arrive with client row 92, which is 72
  pixels below the overlay's top.

  \<open>popped_then_clicked\<close>: the caller has removed the last label through the getter; the
  pointer then clicks the third row, which the overlay still shows.
\<close>

definition click_cycle :: "(layout \<times> mouse_event) list" where
  "click_cycle =
     [(layout_A, mouse mousedown Canvas 10), (layout_A, mouse mousemove DdCanvas 80),
      (layout_A, mouse mousedown DdCanvas 80), (layout_A, mouse mouseup DdCanvas 80)]"



subsection \<open>Options and defaults, as a rule\<close>

text \<open>
  The rule a field follows when it is decided by one key of the options alone: the
  supplied string if there is one and it is not empty, the default otherwise.
  \<open>no_alias\<close> says that none of the \<open>UI\<close>-prefixed second keys is supplied.
\<close>

definition follows_option :: "string option \<Rightarrow> string \<Rightarrow> string \<Rightarrow> bool" where
  "follows_option supplied dflt field =
     (case supplied of None \<Rightarrow> field = dflt | Some s \<Rightarrow> field = (if s \<noteq> [] then s else dflt))"

definition no_alias :: "menu_options \<Rightarrow> bool" where
  "no_alias opt =
     (o_UIbackgroundColor opt = None \<and> o_UIfontColor opt = None \<and> o_UIfontSize opt = None
      \<and> o_UIfontFamily opt = None \<and> o_UIselectedItemBackgroundColor opt = None)"

section \<open>Predicates used by the properties\<close>


text \<open>
  The invariant of a slider built with the options \<open>ops\<close>: the options and the
  constraint are the ones of its construction and the value is within the bounds.
\<close>

definition slider_inv :: "options \<Rightarrow> slider \<Rightarrow> bool" where
  "slider_inv ops s =
     (opts s = ops \<and> stateConstraints s = initStateConstraints ops
      \<and> in_range (minVal ops) (maxVal ops) (ToNumber (getVal s)))"

text \<open>
  The four listeners \<open>touchHandle\<close> attaches to \<open>document.body\<close>, and the listeners the
  constructor attaches to the overlay and to the handle.
\<close>

definition drag_listeners :: "(evtype \<times> handler) list" where
  "drag_listeners =
     [(mousemove, Ref_moveHandle), (touchmove, Ref_moveHandle), (mouseup, Ref_releaseHandle),
      (touchend, Ref_releaseHandle)]"

definition built :: "slider \<Rightarrow> bool" where
  "built s =
     (overlayListeners s = [(mousedown, Ref_touchBody), (touchstart, Ref_touchBody)]
      \<and> handleListeners s = [(mousedown, Ref_touchHandle), (touchstart, Ref_touchHandle)])"

text \<open>
  A press on the closed box, a move to the third row and a release there, with no press
  on the overlay in between.
\<close>

definition press_drag_release :: "(layout \<times> mouse_event) list" where
  "press_drag_release =
     [(layout_A, mouse mousedown Canvas 10), (layout_A, mouse mousemove DdCanvas 80),
      (layout_A, mouse mouseup DdCanvas 80)]"

text \<open>
  The listener lists a menu can have: the closed box holds \<open>mouseDownListener\<close>, the
  overlay at most \<open>mouseMoveListener\<close>, and \<open>document\<close> at most
  \<open>secondMouseDownListener\<close> and \<open>mouseUpListener\<close>, each once.  The constructor
  establishes this and every event keeps it.
\<close>

definition listeners_wf :: "dropmenu \<Rightarrow> bool" where
  "listeners_wf m =
     (canvasListeners m = [(mousedown, Ref_mouseDownListener)]
      \<and> set (ddCanvasListeners m) \<subseteq> {(mousemove, Ref_mouseMoveListener)}
      \<and> distinct (documentListeners m)
      \<and> set (documentListeners m)
          \<subseteq> {(mousedown, Ref_secondMouseDownListener), (mouseup, Ref_mouseUpListener)})"

text \<open>
  The first two events of \<open>press_drag_release\<close>, which leave the menu open with its third
  row hovered; and these followed by a press on that row, which attaches
  \<open>mouseUpListener\<close>.
\<close>

definition hover_third_row :: "(layout \<times> mouse_event) list" where
  "hover_third_row =
     [(layout_A, mouse mousedown Canvas 10), (layout_A, mouse mousemove DdCanvas 80)]"

definition press_third_row :: "(layout \<times> mouse_event) list" where
  "press_third_row = hover_third_row @ [(layout_A, mouse mousedown DdCanvas 80)]"

section \<open>Properties of the numbers and of the constraint\<close>











lemma clamp_bounds: "lo \<le> hi \<Longrightarrow> lo \<le> clamp lo hi x \<and> clamp lo hi x \<le> hi"
  by (simp add: clamp_def)



lemma clamp_js_bounds: "lo \<le> hi \<Longrightarrow> lo \<le> clamp_js lo hi n \<and> clamp_js lo hi n \<le> hi"
  by (cases n) (simp_all add: clamp_def)


lemma in_range_Fin: "in_range lo hi (Fin v) = (lo \<le> v \<and> v \<le> hi)"
  by (simp add: in_range_def)


text \<open>
  Whatever the transform is, the result of a constraint with \<open>min \<le> max\<close> reads as a
  number within the bounds.
\<close>

lemma Constraint_apply_in_range:
  assumes "min_c c \<le> max_c c"
  shows "in_range (min_c c) (max_c c) (ToNumber (Constraint_apply c x))"
  using assms clamp_js_bounds[OF assms]
  by (simp add: Constraint_apply_def Let_def in_range_Fin)





section \<open>Evaluation\<close>

text \<open>
  The definitions a concrete run unfolds, collected for the simplifier, and the row
  height of the default font size.
\<close>

lemmas slider_eval =
  getVal_def setVal_def setInternalVal_def setState_def Widget_notifyObservers_def setInternalState_def
  merge_def ConstraintSpec_apply_def Constraint_apply_def Slider_def initOptions_def
  Widget_initOptions_def initStateConstraints_def initState_def initDims_def clamp_def
  toFixed0_def rounded_magnitude_def in_range_def no_options_def plain_container_def
  Widget_subscribe_def Let_def

lemmas menu_eval =
  run_menu_def dispatch_menu_def fire_def listeners_on_def mouse_def menu_ABC_def
  LiveDropMenu_def no_menu_options_def layout_A_def layout_B_def or_lit_def or_js_def truthy_def
  mouseDownListener_def secondMouseDownListener_def mouseMoveListener_def mouseUpListener_def
  notifyObservers_def subscribe_def strict_neq_def addEventListener_def removeEventListener_def
  getMenuItemHeight_def menuItemHeight_def getDdCanvasHeight_def Let_def

lemma parseInt_12px: "parseInt ''12px'' = Fin 12"
  by (simp add: parseInt_def isWhiteSpace_def digitValue_def number_of_digits_def Let_def)

section \<open>Idempotence of the constraint\<close>






section \<open>The mutation protocol\<close>

lemma setInternalState_frame:
  "opts (setInternalState d s) = opts s"
  "stateConstraints (setInternalState d s) = stateConstraints s"
  "observers (setInternalState d s) = observers s"
  "calls (setInternalState d s) = calls s"
  "bodyListeners (setInternalState d s) = bodyListeners s"
  "overlayListeners (setInternalState d s) = overlayListeners s"
  "handleListeners (setInternalState d s) = handleListeners s"
  "geom (setInternalState d s) = geom s"
  "dims (setInternalState d s) = dims s"
  by (simp_all add: setInternalState_def)

lemma setState_frame:
  "opts (setState d s) = opts s"
  "stateConstraints (setState d s) = stateConstraints s"
  "observers (setState d s) = observers s"
  "bodyListeners (setState d s) = bodyListeners s"
  "overlayListeners (setState d s) = overlayListeners s"
  "handleListeners (setState d s) = handleListeners s"
  "geom (setState d s) = geom s"
  "dims (setState d s) = dims s"
  "state (setState d s) = state (setInternalState d s)"
  by (simp_all add: setState_def Widget_notifyObservers_def setInternalState_def)

lemma getVal_setInternalState:
  "getVal (setInternalState \<lparr> d_val = Some v \<rparr> s) = Constraint_apply (stateConstraints s) v"
  by (simp add: getVal_def setInternalState_def merge_def ConstraintSpec_apply_def)

lemma getVal_setInternalState_None:
  "getVal (setInternalState \<lparr> d_val = None \<rparr> s) = getVal s"
  by (simp add: getVal_def setInternalState_def merge_def ConstraintSpec_apply_def)

lemma calls_setState:
  "calls (setState d s) = calls s @ map (\<lambda>ob. (ob, getVal (setInternalState d s))) (observers s)"
  by (simp add: setState_def Widget_notifyObservers_def setInternalState_frame)

text \<open>
  Claim C1.  \<open>setInternalState({val: v})\<close> calls no observer.  \<open>setState({val: v})\<close> calls
  every entry of the observer registry once, in order, each with the validated \<open>v\<close>.
  \<open>setInternalVal\<close> and \<open>setVal\<close> of the slider are these two calls.
\<close>

theorem notification_asymmetry:
  "calls (setInternalState \<lparr> d_val = Some v \<rparr> s) = calls s
   \<and> calls (setState \<lparr> d_val = Some v \<rparr> s)
       = calls s @ map (\<lambda>ob. (ob, Constraint_apply (stateConstraints s) v)) (observers s)
   \<and> setInternalVal v s = setInternalState \<lparr> d_val = Some v \<rparr> s
   \<and> setVal v s = setState \<lparr> d_val = Some v \<rparr> s"
  by (simp add: calls_setState getVal_setInternalState setInternalState_frame
        setInternalVal_def setVal_def)

text \<open>
  The theorem at a slider with one observer and the value 200, which the default
  constraint validates to \<open>"127"\<close>.
\<close>

theorem notification_asymmetry_witness:
  "calls (setInternalVal (Num (Fin 200)) (Widget_subscribe 1 2 (Slider plain_container no_options))) = []
   \<and> calls (setVal (Num (Fin 200)) (Widget_subscribe 1 2 (Slider plain_container no_options)))
      = [(\<lparr> ctx = 1, func = 2 \<rparr>, Str (Decimal False 127))]"
  using notification_asymmetry
    [of "Num (Fin 200)" "Widget_subscribe 1 2 (Slider plain_container no_options)"]
  by (simp add: slider_eval)

section \<open>The range of the slider value\<close>

lemma slider_inv_perform:
  assumes "minVal ops \<le> maxVal ops" and "slider_inv ops s"
  shows "slider_inv ops (perform m s)"
proof -
  let ?c = "initStateConstraints ops"
  have c: "min_c ?c = minVal ops" "max_c ?c = maxVal ops"
    by (simp_all add: initStateConstraints_def)
  have step: "slider_inv ops (setInternalState d s)" for d
  proof (cases "d_val d")
    case None
    then have "d = \<lparr> d_val = None \<rparr>" by (cases d) simp
    then show ?thesis using assms(2)
      by (simp add: slider_inv_def setInternalState_frame getVal_setInternalState_None)
  next
    case (Some v)
    then have d: "d = \<lparr> d_val = Some v \<rparr>" by (cases d) simp
    have "in_range (minVal ops) (maxVal ops) (ToNumber (Constraint_apply ?c v))"
      using Constraint_apply_in_range[of ?c v] assms(1) c by simp
    then show ?thesis using assms(2) d
      by (simp add: slider_inv_def setInternalState_frame getVal_setInternalState)
  qed
  show ?thesis
  proof (cases m)
    case (SetState d)
    have "slider_inv ops (setInternalState d s)" by (rule step)
    then show ?thesis using SetState
      by (simp add: slider_inv_def setState_frame setInternalState_frame getVal_def)
  next
    case (SetInternalState d)
    then show ?thesis using step by simp
  qed
qed

lemma slider_inv_fold:
  assumes "minVal ops \<le> maxVal ops"
  shows "slider_inv ops s \<Longrightarrow> slider_inv ops (fold perform ms s)"
proof (induction ms arbitrary: s)
  case Nil
  then show ?case by simp
next
  case (Cons m ms)
  then show ?case using slider_inv_perform[OF assms, of s m] by simp
qed

lemma slider_inv_Slider:
  "minVal (initOptions oi) \<le> maxVal (initOptions oi) \<Longrightarrow>
     slider_inv (initOptions oi) (Slider cont oi)"
  by (simp add: slider_inv_def Slider_def Let_def getVal_def initState_def in_range_def)

text \<open>
  Claim C3.  For a slider constructed with \<open>minVal \<le> maxVal\<close>, after any finite sequence
  of \<open>setState\<close> and \<open>setInternalState\<close> calls, whatever their deltas are, \<open>getVal()\<close>
  reads as a finite number within \<open>[minVal, maxVal]\<close>.  (\<open>getVal()\<close> is the initial Number
  or what the constraint returned, a String of \<open>toFixed(0)\<close> or a re-clamped Number.)
\<close>

theorem getVal_in_range:
  assumes "minVal (initOptions oi) \<le> maxVal (initOptions oi)"
  shows "in_range (minVal (initOptions oi)) (maxVal (initOptions oi))
           (ToNumber (getVal (fold perform ms (Slider cont oi))))"
  using slider_inv_fold[OF assms slider_inv_Slider[OF assms]]
  by (simp add: slider_inv_def)

text \<open>
  The theorem at a slider from 0 to 0.75 and six calls: above the range, below it, an
  empty delta, NaN, a string, and the upper bound itself, which \<open>toFixed(0)\<close> would
  write \<open>"1"\<close>.
\<close>

theorem getVal_in_range_witness:
  "in_range 0 (3 / 4)
     (ToNumber (getVal (fold perform
        [SetState \<lparr> d_val = Some (Num (Fin 200)) \<rparr>,
         SetInternalState \<lparr> d_val = Some (Num (Fin (- 3 / 2))) \<rparr>,
         SetState \<lparr> d_val = None \<rparr>, SetState \<lparr> d_val = Some (Num NaN) \<rparr>,
         SetState \<lparr> d_val = Some (Str (Decimal False 64)) \<rparr>,
         SetState \<lparr> d_val = Some (Num (Fin (3 / 4))) \<rparr>]
        (Slider plain_container (no_options\<lparr>maxVal_in := Some (3 / 4)\<rparr>)))))"
  using getVal_in_range
    [of "no_options\<lparr>maxVal_in := Some (3 / 4)\<rparr>"
        "[SetState \<lparr> d_val = Some (Num (Fin 200)) \<rparr>,
         SetInternalState \<lparr> d_val = Some (Num (Fin (- 3 / 2))) \<rparr>,
         SetState \<lparr> d_val = None \<rparr>, SetState \<lparr> d_val = Some (Num NaN) \<rparr>,
         SetState \<lparr> d_val = Some (Str (Decimal False 64)) \<rparr>,
         SetState \<lparr> d_val = Some (Num (Fin (3 / 4))) \<rparr>]"
        plain_container]
  by (simp add: initOptions_def Widget_initOptions_def no_options_def)

section \<open>Slider geometry\<close>

text \<open>
  For a slider whose value range and body height are not zero, the handle's pixel row
  mapped back through \<open>_calcTouchVal\<close> is the value plus \<open>minVal\<close>:
  \<open>_calcSliderHandlePoints\<close> divides the value itself by the range, where the inverse
  map adds \<open>minVal\<close> to a fraction of the range.  The round trip is exact only when
  \<open>minVal\<close> is 0.
\<close>

lemma calcTouchVal_handleY:
  assumes "ToNumber (val (state s)) = Fin v" and "maxVal (opts s) \<noteq> minVal (opts s)"
      and "calcSliderBodyHeight s \<noteq> 0" and "dims s = initDims"
      and "handleY s = Fin y0" and "getRelativeY (geom s) y = y0"
  shows "calcTouchVal s y = Fin (v + minVal (opts s))"
proof -
  define H where "H = calcSliderBodyHeight s"
  define R where "R = maxVal (opts s) - minVal (opts s)"
  have R: "R \<noteq> 0" and H: "H \<noteq> 0" using assms(2,3) by (simp_all add: R_def H_def)
  have hh: "getHeight (geom s) = H + 10"
    using assms(4) by (simp add: H_def calcSliderBodyHeight_def initDims_def)
  have "handleY s = Fin (H - v / R * H + 5)"
    using assms(1,4) R by (simp add: handleY_def Let_def sub_js_def H_def R_def initDims_def)
  then have y0: "y0 = H - v / R * H + 5" using assms(5) by simp
  have "calcTouchVal s y = Fin ((H + 10 - y0 - 5) / H * R + minVal (opts s))"
    using assms(4,6) H hh by (simp add: calcTouchVal_def Let_def H_def[symmetric] R_def initDims_def)
  also have "(H + 10 - y0 - 5) / H * R = v"
    using R H by (simp add: y0 field_simps)
  finally show ?thesis by simp
qed

text \<open>
  The lemma at the default slider holding \<open>"64"\<close>: the round trip is exact, \<open>minVal\<close>
  being 0.
\<close>

theorem calcTouchVal_handleY_witness:
  "getVal (setInternalVal (Num (Fin 64)) (Slider plain_container no_options)) = Str (Decimal False 64)
   \<and> handleY (setInternalVal (Num (Fin 64)) (Slider plain_container no_options))
       = Fin (105 - 6400 / 127)
   \<and> calcTouchVal (setInternalVal (Num (Fin 64)) (Slider plain_container no_options))
        (105 - 6400 / 127) = Fin 64"
proof -
  let ?s = "setInternalVal (Num (Fin 64)) (Slider plain_container no_options)"
  have g0: "getVal ?s = Str (Decimal False 64)" by (simp add: slider_eval)
  have v: "ToNumber (val (state ?s)) = Fin 64" using g0 by (simp add: getVal_def)
  have r: "maxVal (opts ?s) \<noteq> minVal (opts ?s)" by (simp add: slider_eval)
  have h: "calcSliderBodyHeight ?s \<noteq> 0" by (simp add: slider_eval calcSliderBodyHeight_def)
  have d: "dims ?s = initDims" by (simp add: slider_eval)
  have y: "handleY ?s = Fin (105 - 6400 / 127)"
    by (simp add: slider_eval handleY_def calcSliderBodyHeight_def sub_js_def)
  have g: "getRelativeY (geom ?s) (105 - 6400 / 127) = 105 - 6400 / 127" by (simp add: slider_eval)
  have m: "minVal (opts ?s) = 0" by (simp add: slider_eval)
  show ?thesis using calcTouchVal_handleY[OF v r h d y g] y m g0 by simp
qed

text \<open>
  Claim C5 fails on the code.  A slider from 10 to 20 in a body 100 pixels high holds its
  initial value 10, the minimum.  Its handle is drawn at row 5, the top end of the body,
  and \<open>_calcTouchVal\<close> maps row 5 to 20: the round trip is off by \<open>minVal\<close>, far beyond
  any rounding.
\<close>

theorem handle_roundtrip_misses_minVal:
  "getVal (Slider plain_container (no_options\<lparr>minVal_in := Some 10, maxVal_in := Some 20\<rparr>))
     = Num (Fin 10)
   \<and> handleY (Slider plain_container (no_options\<lparr>minVal_in := Some 10, maxVal_in := Some 20\<rparr>)) = Fin 5
   \<and> calcTouchVal (Slider plain_container (no_options\<lparr>minVal_in := Some 10, maxVal_in := Some 20\<rparr>)) 5
       = Fin 20"
  by (simp add: slider_eval handleY_def calcTouchVal_def calcSliderBodyHeight_def sub_js_def)

section \<open>Listeners of the slider\<close>

lemma dispatch_down:
  assumes "is_down ev" "built s" "bodyListeners s = []"
  shows "bodyListeners (dispatch ev s) = drag_listeners \<and> built (dispatch ev s)"
  using assms
  by (auto simp: is_down_def built_def dispatch_def listeners_of_def touchBody_def
        touchHandle_def addEventListener_def drag_listeners_def setState_frame Let_def)

lemma dispatch_move:
  assumes "is_move ev" "built s" "bodyListeners s = drag_listeners"
  shows "bodyListeners (dispatch ev s) = drag_listeners \<and> built (dispatch ev s)"
  using assms
  by (auto simp: is_move_def built_def dispatch_def listeners_of_def moveHandle_def
        drag_listeners_def setState_frame Let_def)

lemma dispatch_moves:
  assumes "\<forall>ev \<in> set evs. is_move ev" "built s" "bodyListeners s = drag_listeners"
  shows "bodyListeners (fold dispatch evs s) = drag_listeners \<and> built (fold dispatch evs s)"
  using assms
proof (induction evs arbitrary: s)
  case Nil
  then show ?case by simp
next
  case (Cons ev evs)
  then show ?case using dispatch_move[of ev s] by simp
qed

lemma dispatch_up:
  assumes "is_up ev" "built s" "bodyListeners s = drag_listeners"
  shows "bodyListeners (dispatch ev s) = [] \<and> built (dispatch ev s)"
  using assms
  by (auto simp: is_up_def built_def dispatch_def listeners_of_def releaseHandle_def
        removeEventListener_def drag_listeners_def)

text \<open>
  A drag cycle of the slider, started with no listener of its own on \<open>document.body\<close>:
  the pointer-down attaches the four listeners, and after the moves and the release none
  is left; the listeners of the overlay and of the handle are as before.
\<close>

theorem drag_cycle_listener_balance:
  assumes "is_down down" and "\<forall>ev \<in> set moves. is_move ev" and "is_up up"
      and "built s" and "bodyListeners s = []"
  shows "bodyListeners (dispatch down s) = drag_listeners
       \<and> bodyListeners (drag_cycle down moves up s) = []
       \<and> built (drag_cycle down moves up s)"
proof -
  have d: "bodyListeners (dispatch down s) = drag_listeners \<and> built (dispatch down s)"
    using assms(1,4,5) by (rule dispatch_down)
  then have m: "bodyListeners (fold dispatch moves (dispatch down s)) = drag_listeners
      \<and> built (fold dispatch moves (dispatch down s))"
    using dispatch_moves[OF assms(2), of "dispatch down s"] by simp
  then have "bodyListeners (drag_cycle down moves up s) = [] \<and> built (drag_cycle down moves up s)"
    unfolding drag_cycle_def using dispatch_up[OF assms(3), of "fold dispatch moves (dispatch down s)"]
    by simp
  with d show ?thesis by simp
qed

text \<open>The theorem at a fresh slider: a press on the overlay, two moves, a release.\<close>

theorem drag_cycle_listener_balance_witness:
  "bodyListeners
     (drag_cycle \<lparr> ev_type = mousedown, target = Overlay, clientY = 40 \<rparr>
        [\<lparr> ev_type = mousemove, target = Body, clientY = 50 \<rparr>,
         \<lparr> ev_type = mousemove, target = Body, clientY = 300 \<rparr>]
        \<lparr> ev_type = mouseup, target = Body, clientY = 300 \<rparr>
        (Slider plain_container no_options)) = []"
  using drag_cycle_listener_balance
    [of "\<lparr> ev_type = mousedown, target = Overlay, clientY = 40 \<rparr>"
        "[\<lparr> ev_type = mousemove, target = Body, clientY = 50 \<rparr>,
         \<lparr> ev_type = mousemove, target = Body, clientY = 300 \<rparr>]"
        "\<lparr> ev_type = mouseup, target = Body, clientY = 300 \<rparr>"
        "Slider plain_container no_options"]
  by (simp add: is_down_def is_move_def is_up_def built_def Slider_def Let_def)

section \<open>Observers of the menu\<close>

text \<open>
  Claim C7 fails on the code.  \<open>subscribe\<close> appends the pair, as claimed.  \<open>unsubscribe\<close>
  reads \<open>this.observers\<close>, a property no instance has (the field is \<open>_observers\<close>), and
  calling \<open>filter\<close> on \<open>undefined\<close> throws a TypeError: every call of \<open>unsubscribe\<close>
  throws and removes nothing.
\<close>

theorem subscribe_appends_unsubscribe_throws:
  "p_observers (subscribe c f m) = p_observers m @ [\<lparr> ctx = c, func = f \<rparr>]
   \<and> unsubscribe c f m = Inl TypeError"
  by (simp add: subscribe_def unsubscribe_def getProperty_def other_property_names_def)

text \<open>The theorem at the menu \<open>[A, B, C]\<close>: subscribing a pair, then unsubscribing it.\<close>

theorem subscribe_appends_unsubscribe_throws_witness:
  "p_observers (subscribe 1 2 menu_ABC) = [\<lparr> ctx = 1, func = 2 \<rparr>]
   \<and> unsubscribe 1 2 (subscribe 1 2 menu_ABC) = Inl TypeError"
  using subscribe_appends_unsubscribe_throws[of 1 2 menu_ABC]
        subscribe_appends_unsubscribe_throws[of 1 2 "subscribe 1 2 menu_ABC"]
  by (simp add: menu_ABC_def LiveDropMenu_def Let_def)

section \<open>Release of the pointer on the menu\<close>

text \<open>
  What \<open>mouseUpListener\<close> does when it runs on a menu whose \<open>hoverItemNum\<close> is \<open>i \<ge> 0\<close>.
\<close>

lemma mouseUpListener_commit_and_cancel:
  assumes "p_hoverItemNum m = Fin i" and "0 \<le> i"
  shows "(target e = DdCanvas \<longrightarrow>
            p_selectedItemNum (mouseUpListener e m) = Fin i
          \<and> menu_calls (mouseUpListener e m) = menu_calls m @ map (\<lambda>ob. (ob, Fin i)) (p_observers m)
          \<and> ddCanvas_visibility (mouseUpListener e m) = hidden
          \<and> p_hoverItemNum (mouseUpListener e m) = Fin (- 1))
       \<and> (target e \<noteq> DdCanvas \<longrightarrow>
            ddCanvas_visibility (mouseUpListener e m) = hidden
          \<and> p_selectedItemNum (mouseUpListener e m) = p_selectedItemNum m
          \<and> p_hoverItemNum (mouseUpListener e m) = Fin (- 1)
          \<and> menu_calls (mouseUpListener e m) = menu_calls m)"
  using assms by (simp add: mouseUpListener_def notifyObservers_def strict_neq_def Let_def)

text \<open>
  The listener lists stay well-formed, and so a mouseup runs \<open>mouseUpListener\<close> when it
  is on \<open>document\<close> and runs nothing otherwise.
\<close>

lemma listeners_wf_LiveDropMenu: "listeners_wf (LiveDropMenu lay opt)"
  by (simp add: listeners_wf_def LiveDropMenu_def Let_def)

lemma listeners_wf_run_listener:
  "listeners_wf m \<Longrightarrow> listeners_wf (run_listener l lay e m)"
  by (cases l)
     (auto simp: listeners_wf_def mouseDownListener_def secondMouseDownListener_def
        mouseMoveListener_def mouseUpListener_def notifyObservers_def addEventListener_def
        removeEventListener_def Let_def distinct_removeAll)

lemma listeners_wf_fold:
  "listeners_wf m \<Longrightarrow> listeners_wf (fold (\<lambda>l. run_listener l lay e) ls m)"
  by (induction ls arbitrary: m) (simp_all add: listeners_wf_run_listener)

lemma listeners_wf_dispatch: "listeners_wf m \<Longrightarrow> listeners_wf (dispatch_menu lay e m)"
  by (simp add: dispatch_menu_def fire_def Let_def listeners_wf_fold)

lemma listeners_wf_run_menu: "listeners_wf m \<Longrightarrow> listeners_wf (run_menu evs m)"
  unfolding run_menu_def
  by (induction evs arbitrary: m) (simp_all add: listeners_wf_dispatch)

lemma filter_none: "(\<And>y. y \<in> set xs \<Longrightarrow> \<not> P y) \<Longrightarrow> filter P xs = []"
  by (induction xs) auto

lemma filter_single:
  "distinct xs \<Longrightarrow> x \<in> set xs \<Longrightarrow> P x \<Longrightarrow> (\<And>y. y \<in> set xs \<Longrightarrow> y \<noteq> x \<Longrightarrow> \<not> P y)
     \<Longrightarrow> filter P xs = [x]"
proof (induction xs)
  case Nil
  then show ?case by simp
next
  case (Cons a xs)
  show ?case
  proof (cases "a = x")
    case True
    then have "x \<notin> set xs" using Cons.prems(1) by simp
    then have "filter P xs = []" using Cons.prems(4) by (intro filter_none) auto
    then show ?thesis using True Cons.prems(3) by simp
  next
    case False
    then have "\<not> P a" using Cons.prems(4)[of a] by simp
    moreover have "filter P xs = [x]"
      using Cons False by (intro Cons.IH) auto
    ultimately show ?thesis by simp
  qed
qed

lemma dispatch_mouseup:
  assumes "listeners_wf m" and "ev_type e = mouseup"
  shows "dispatch_menu lay e m =
     (if (mouseup, Ref_mouseUpListener) \<in> set (documentListeners m) then mouseUpListener e m else m)"
proof -
  have t: "filter (\<lambda>l. fst l = mouseup) (listeners_on (target e) m) = []"
    using assms(1) by (intro filter_none) (auto simp: listeners_wf_def listeners_on_def split: node.splits)
  then have m1: "fire (listeners_on (target e) m) lay e m = m"
    using assms(2) by (simp add: fire_def)
  show ?thesis
  proof (cases "(mouseup, Ref_mouseUpListener) \<in> set (documentListeners m)")
    case True
    have "filter (\<lambda>l. fst l = mouseup) (documentListeners m) = [(mouseup, Ref_mouseUpListener)]"
      using assms(1) True by (intro filter_single) (auto simp: listeners_wf_def)
    then show ?thesis using True m1 assms(2) by (simp add: dispatch_menu_def fire_def Let_def)
  next
    case False
    have "filter (\<lambda>l. fst l = mouseup) (documentListeners m) = []"
      using assms(1) False by (intro filter_none) (auto simp: listeners_wf_def)
    then show ?thesis using False m1 assms(2) by (simp add: dispatch_menu_def fire_def Let_def)
  qed
qed

text \<open>
  Claim C4, amended.  On a menu whose \<open>hoverItemNum\<close> is \<open>i \<ge> 0\<close>, a pointer-up is
  dispatched.  If \<open>mouseUpListener\<close> is attached to \<open>document\<close> (which a pointer-down with
  a target other than the closed box does, while the menu is open): when the target is
  the overlay, \<open>selectedItemNum\<close> becomes \<open>i\<close>, every entry of the observer registry is
  called once with \<open>i\<close>, the overlay is hidden and \<open>hoverItemNum\<close> is -1; when the
  target is anything else, the overlay is hidden, \<open>selectedItemNum\<close> is unchanged,
  \<open>hoverItemNum\<close> is -1 and no observer is called.  If it is not attached, the
  pointer-up changes nothing.  Every menu the constructor and the events produce has
  well-formed listener lists.
\<close>

theorem pointer_up_commit_and_cancel:
  assumes "listeners_wf m" and "ev_type e = mouseup"
      and "p_hoverItemNum m = Fin i" and "0 \<le> i"
  shows "((mouseup, Ref_mouseUpListener) \<in> set (documentListeners m) \<longrightarrow>
          (target e = DdCanvas \<longrightarrow>
              p_selectedItemNum (dispatch_menu lay e m) = Fin i
            \<and> menu_calls (dispatch_menu lay e m)
                = menu_calls m @ map (\<lambda>ob. (ob, Fin i)) (p_observers m)
            \<and> ddCanvas_visibility (dispatch_menu lay e m) = hidden
            \<and> p_hoverItemNum (dispatch_menu lay e m) = Fin (- 1))
        \<and> (target e \<noteq> DdCanvas \<longrightarrow>
              ddCanvas_visibility (dispatch_menu lay e m) = hidden
            \<and> p_selectedItemNum (dispatch_menu lay e m) = p_selectedItemNum m
            \<and> p_hoverItemNum (dispatch_menu lay e m) = Fin (- 1)
            \<and> menu_calls (dispatch_menu lay e m) = menu_calls m))
       \<and> ((mouseup, Ref_mouseUpListener) \<notin> set (documentListeners m) \<longrightarrow>
            dispatch_menu lay e m = m)"
  using mouseUpListener_commit_and_cancel[OF assms(3,4), of e]
  by (simp add: dispatch_mouseup[OF assms(1,2)])

text \<open>
  The theorem at the menu \<open>[A, B, C]\<close> with one observer, opened, its third row hovered
  and pressed: a release on the overlay and a release elsewhere; and at the same menu
  before the press, where the release changes nothing.
\<close>

theorem pointer_up_commit_and_cancel_witness:
  "p_selectedItemNum (dispatch_menu layout_A (mouse mouseup DdCanvas 80)
       (run_menu press_third_row (subscribe 1 2 menu_ABC))) = Fin 2
   \<and> menu_calls (dispatch_menu layout_A (mouse mouseup DdCanvas 80)
       (run_menu press_third_row (subscribe 1 2 menu_ABC))) = [(\<lparr> ctx = 1, func = 2 \<rparr>, Fin 2)]
   \<and> ddCanvas_visibility (dispatch_menu layout_A (mouse mouseup DdCanvas 80)
       (run_menu press_third_row (subscribe 1 2 menu_ABC))) = hidden
   \<and> p_selectedItemNum (dispatch_menu layout_A (mouse mouseup Elsewhere 300)
       (run_menu press_third_row (subscribe 1 2 menu_ABC))) = Fin 0
   \<and> menu_calls (dispatch_menu layout_A (mouse mouseup Elsewhere 300)
       (run_menu press_third_row (subscribe 1 2 menu_ABC))) = []
   \<and> dispatch_menu layout_A (mouse mouseup DdCanvas 80)
       (run_menu hover_third_row (subscribe 1 2 menu_ABC))
      = run_menu hover_third_row (subscribe 1 2 menu_ABC)"
proof -
  let ?m = "run_menu press_third_row (subscribe 1 2 menu_ABC)"
  let ?h = "run_menu hover_third_row (subscribe 1 2 menu_ABC)"
  have wf0: "listeners_wf (subscribe 1 2 menu_ABC)"
    using listeners_wf_LiveDropMenu by (simp add: listeners_wf_def subscribe_def menu_ABC_def)
  have wf: "listeners_wf ?m" "listeners_wf ?h" using wf0 by (simp_all add: listeners_wf_run_menu)
  have ty: "ev_type (mouse mouseup DdCanvas 80) = mouseup" "ev_type (mouse mouseup Elsewhere 300) = mouseup"
    by (simp_all add: mouse_def)
  have hov: "p_hoverItemNum ?m = Fin 2" "p_hoverItemNum ?h = Fin 2"
    by (simp_all add: press_third_row_def hover_third_row_def menu_eval parseInt_12px)
  have facts:
    "(mouseup, Ref_mouseUpListener) \<in> set (documentListeners ?m)"
    "(mouseup, Ref_mouseUpListener) \<notin> set (documentListeners ?h)"
    "menu_calls ?m = []" "p_observers ?m = [\<lparr> ctx = 1, func = 2 \<rparr>]" "p_selectedItemNum ?m = Fin 0"
    by (simp_all add: press_third_row_def hover_third_row_def menu_eval parseInt_12px)
  have tg: "target (mouse mouseup DdCanvas 80) = DdCanvas" "target (mouse mouseup Elsewhere 300) \<noteq> DdCanvas"
    by (simp_all add: mouse_def)
  show ?thesis
    using pointer_up_commit_and_cancel[OF wf(1) ty(1) hov(1), of layout_A]
          pointer_up_commit_and_cancel[OF wf(1) ty(2) hov(1), of layout_A]
          pointer_up_commit_and_cancel[OF wf(2) ty(1) hov(2), of layout_A]
          facts tg
    by simp
qed

text \<open>
  Claim C4 as stated fails: after a press on the closed box and a move to the third
  row, the menu is open and \<open>hoverItemNum\<close> is 2; a pointer-up on the overlay then leaves
  \<open>selectedItemNum\<close> at 0, calls no observer, and leaves the overlay visible and the
  row hovered.
\<close>

theorem pointer_up_without_press_commits_nothing:
  "ddCanvas_visibility (run_menu hover_third_row (subscribe 1 2 menu_ABC)) = visible
   \<and> p_hoverItemNum (run_menu hover_third_row (subscribe 1 2 menu_ABC)) = Fin 2
   \<and> p_selectedItemNum
       (dispatch_menu layout_A (mouse mouseup DdCanvas 80)
          (run_menu hover_third_row (subscribe 1 2 menu_ABC))) = Fin 0
   \<and> menu_calls
       (dispatch_menu layout_A (mouse mouseup DdCanvas 80)
          (run_menu hover_third_row (subscribe 1 2 menu_ABC))) = []
   \<and> ddCanvas_visibility
       (dispatch_menu layout_A (mouse mouseup DdCanvas 80)
          (run_menu hover_third_row (subscribe 1 2 menu_ABC))) = visible
   \<and> p_hoverItemNum
       (dispatch_menu layout_A (mouse mouseup DdCanvas 80)
          (run_menu hover_third_row (subscribe 1 2 menu_ABC))) = Fin 2"
  by (simp add: hover_third_row_def menu_eval parseInt_12px)



section \<open>Position of the overlay\<close>

lemma run_listener_position:
  "ddCanvas_style_left (run_listener l lay e m) = ddCanvas_style_left m
   \<and> ddCanvas_style_top (run_listener l lay e m) = ddCanvas_style_top m"
  by (cases l)
     (simp_all add: mouseDownListener_def secondMouseDownListener_def mouseMoveListener_def
        mouseUpListener_def notifyObservers_def Let_def)

lemma fold_run_listener_position:
  "ddCanvas_style_left (fold (\<lambda>l. run_listener l lay e) ls m) = ddCanvas_style_left m
   \<and> ddCanvas_style_top (fold (\<lambda>l. run_listener l lay e) ls m) = ddCanvas_style_top m"
  by (induction ls arbitrary: m) (simp_all add: run_listener_position)

lemma dispatch_menu_position:
  "ddCanvas_style_left (dispatch_menu lay e m) = ddCanvas_style_left m
   \<and> ddCanvas_style_top (dispatch_menu lay e m) = ddCanvas_style_top m"
  by (simp add: dispatch_menu_def fire_def Let_def fold_run_listener_position)

lemma run_menu_position:
  "ddCanvas_style_left (run_menu evs m) = ddCanvas_style_left m
   \<and> ddCanvas_style_top (run_menu evs m) = ddCanvas_style_top m"
  unfolding run_menu_def
  by (induction evs arbitrary: m) (simp_all add: dispatch_menu_position)

text \<open>
  Claim C8, amended.  The overlay's position is set once, by the constructor, from the
  closed box's bounding rectangle of that moment (left = box left, top = box bottom).
  Opening the menu makes the overlay visible and leaves its position as it is, and so
  does every later event.
\<close>

theorem overlay_position_set_once:
  "ddCanvas_style_left (LiveDropMenu lay opt) = canvas_left lay
   \<and> ddCanvas_style_top (LiveDropMenu lay opt) = canvas_bottom lay
   \<and> ddCanvas_visibility (mouseDownListener m) = visible
   \<and> ddCanvas_style_left (mouseDownListener m) = ddCanvas_style_left m
   \<and> ddCanvas_style_top (mouseDownListener m) = ddCanvas_style_top m
   \<and> ddCanvas_style_left (run_menu evs (LiveDropMenu lay opt)) = canvas_left lay
   \<and> ddCanvas_style_top (run_menu evs (LiveDropMenu lay opt)) = canvas_bottom lay"
  by (simp add: run_menu_position) (simp add: LiveDropMenu_def mouseDownListener_def Let_def)

text \<open>
  Claim C8 as stated fails: the menu is constructed with the box at (0, 20); the page
  then moves the box to (50, 100); a press on the box opens the overlay at (0, 20) still.
\<close>

theorem overlay_position_not_recomputed:
  "ddCanvas_visibility (dispatch_menu layout_B (mouse mousedown Canvas 90) menu_ABC) = visible
   \<and> ddCanvas_style_left (dispatch_menu layout_B (mouse mousedown Canvas 90) menu_ABC)
       \<noteq> canvas_left layout_B
   \<and> ddCanvas_style_top (dispatch_menu layout_B (mouse mousedown Canvas 90) menu_ABC)
       \<noteq> canvas_bottom layout_B"
  by (simp add: menu_eval)

section \<open>Options and defaults\<close>

lemma or_lit_None [simp]: "or_lit (or_js a None) d = or_lit a d"
  by (cases a) (simp_all add: or_lit_def or_js_def truthy_def)

text \<open>
  Claim C9, amended.  For the menu, when no \<open>UI\<close>-prefixed second key is supplied: the
  labels are the supplied list or else empty, and each of the six styling fields of the
  spec's list is the supplied string if that is not empty, and its default otherwise; in
  particular the selected-item font color is \<open>#fff\<close> when \<open>selectedItemFontColor\<close> is
  left out, whatever \<open>selectedItemBackgroundColor\<close> is.  For the slider, each of the five
  options is the supplied value or else its default.
\<close>

theorem options_override_defaults:
  assumes "no_alias opt"
  shows "p_menuItems (LiveDropMenu lay opt) = (case o_menuItems opt of Some xs \<Rightarrow> xs | None \<Rightarrow> [])
       \<and> follows_option (o_backgroundColor opt) ''#555'' (p_UIbackgroundColor (LiveDropMenu lay opt))
       \<and> follows_option (o_fontColor opt) ''#bbb'' (p_UIfontColor (LiveDropMenu lay opt))
       \<and> follows_option (o_fontSize opt) ''12px'' (p_UIfontSize (LiveDropMenu lay opt))
       \<and> follows_option (o_fontFamily opt) ''Arial'' (p_UIfontFamily (LiveDropMenu lay opt))
       \<and> follows_option (o_selectedItemBackgroundColor opt) ''#ccc''
           (p_UIselectedItemBackgroundColor (LiveDropMenu lay opt))
       \<and> follows_option (o_selectedItemFontColor opt) ''#fff''
           (p_UIselectedItemFontColor (LiveDropMenu lay opt))
       \<and> (o_selectedItemFontColor opt = None \<longrightarrow>
           p_UIselectedItemFontColor (LiveDropMenu lay opt) = ''#fff'')
       \<and> minVal (initOptions oi) = (case minVal_in oi of Some v \<Rightarrow> v | None \<Rightarrow> 0)
       \<and> maxVal (initOptions oi) = (case maxVal_in oi of Some v \<Rightarrow> v | None \<Rightarrow> 127)
       \<and> sliderBodyColor (initOptions oi)
           = (case sliderBodyColor_in oi of Some v \<Rightarrow> v | None \<Rightarrow> ''#484848'')
       \<and> sliderHandleColor (initOptions oi)
           = (case sliderHandleColor_in oi of Some v \<Rightarrow> v | None \<Rightarrow> ''#484848'')
       \<and> mouseSensitivity (initOptions oi)
           = (case mouseSensitivity_in oi of Some v \<Rightarrow> v | None \<Rightarrow> 12 / 10)"
proof -
  have menu: "p_menuItems (LiveDropMenu lay opt) = (case o_menuItems opt of Some xs \<Rightarrow> xs | None \<Rightarrow> [])"
    by (simp add: LiveDropMenu_def Let_def)
  have f: "follows_option a d (or_lit a d)" for a d
    by (cases a) (simp_all add: follows_option_def or_lit_def)
  have strings:
    "p_UIbackgroundColor (LiveDropMenu lay opt) = or_lit (o_backgroundColor opt) ''#555''"
    "p_UIfontColor (LiveDropMenu lay opt) = or_lit (o_fontColor opt) ''#bbb''"
    "p_UIfontSize (LiveDropMenu lay opt) = or_lit (o_fontSize opt) ''12px''"
    "p_UIfontFamily (LiveDropMenu lay opt) = or_lit (o_fontFamily opt) ''Arial''"
    "p_UIselectedItemBackgroundColor (LiveDropMenu lay opt)
       = or_lit (o_selectedItemBackgroundColor opt) ''#ccc''"
    "p_UIselectedItemFontColor (LiveDropMenu lay opt)
       = or_lit (o_selectedItemFontColor opt) ''#fff''"
    using assms by (simp_all add: LiveDropMenu_def Let_def no_alias_def)
  have dflt: "o_selectedItemFontColor opt = None \<longrightarrow>
           p_UIselectedItemFontColor (LiveDropMenu lay opt) = ''#fff''"
    using strings(6) by (simp add: or_lit_def)
  have slider:
    "minVal (initOptions oi) = (case minVal_in oi of Some v \<Rightarrow> v | None \<Rightarrow> 0)"
    "maxVal (initOptions oi) = (case maxVal_in oi of Some v \<Rightarrow> v | None \<Rightarrow> 127)"
    "sliderBodyColor (initOptions oi)
           = (case sliderBodyColor_in oi of Some v \<Rightarrow> v | None \<Rightarrow> ''#484848'')"
    "sliderHandleColor (initOptions oi)
           = (case sliderHandleColor_in oi of Some v \<Rightarrow> v | None \<Rightarrow> ''#484848'')"
    "mouseSensitivity (initOptions oi)
           = (case mouseSensitivity_in oi of Some v \<Rightarrow> v | None \<Rightarrow> 12 / 10)"
    by (simp_all add: initOptions_def Widget_initOptions_def split: option.splits)
  have fs:
    "follows_option (o_backgroundColor opt) ''#555'' (p_UIbackgroundColor (LiveDropMenu lay opt))"
    "follows_option (o_fontColor opt) ''#bbb'' (p_UIfontColor (LiveDropMenu lay opt))"
    "follows_option (o_fontSize opt) ''12px'' (p_UIfontSize (LiveDropMenu lay opt))"
    "follows_option (o_fontFamily opt) ''Arial'' (p_UIfontFamily (LiveDropMenu lay opt))"
    "follows_option (o_selectedItemBackgroundColor opt) ''#ccc''
           (p_UIselectedItemBackgroundColor (LiveDropMenu lay opt))"
    "follows_option (o_selectedItemFontColor opt) ''#fff''
           (p_UIselectedItemFontColor (LiveDropMenu lay opt))"
    unfolding strings by (rule f)+
  show ?thesis
    using menu fs dflt slider by blast
qed

text \<open>
  The theorem at a menu given \<open>selectedItemBackgroundColor\<close> only, and at a slider given
  \<open>maxVal\<close> only.
\<close>

theorem options_override_defaults_witness:
  "p_UIselectedItemBackgroundColor
      (LiveDropMenu layout_A (no_menu_options\<lparr>o_selectedItemBackgroundColor := Some ''#0f0''\<rparr>))
     = ''#0f0''
   \<and> p_UIselectedItemFontColor
      (LiveDropMenu layout_A (no_menu_options\<lparr>o_selectedItemBackgroundColor := Some ''#0f0''\<rparr>))
     = ''#fff''
   \<and> p_UIbackgroundColor
      (LiveDropMenu layout_A (no_menu_options\<lparr>o_selectedItemBackgroundColor := Some ''#0f0''\<rparr>))
     = ''#555''
   \<and> maxVal (initOptions (no_options\<lparr>maxVal_in := Some 10\<rparr>)) = 10
   \<and> minVal (initOptions (no_options\<lparr>maxVal_in := Some 10\<rparr>)) = 0"
proof -
  have h: "no_alias (no_menu_options\<lparr>o_selectedItemBackgroundColor := Some ''#0f0''\<rparr>)"
    by (simp add: no_alias_def no_menu_options_def)
  show ?thesis
    using options_override_defaults[OF h, of layout_A "no_options\<lparr>maxVal_in := Some 10\<rparr>"]
    by (simp add: follows_option_def no_menu_options_def no_options_def)
qed

text \<open>
  Claim C9 as stated fails for a supplied empty string: \<open>backgroundColor: ''\<close> is falsy,
  so \<open>||\<close> passes it over and the field is the default \<open>#555\<close>.
\<close>

theorem empty_string_option_is_overridden:
  "o_backgroundColor (no_menu_options\<lparr>o_backgroundColor := Some ''''\<rparr>) = Some ''''
   \<and> p_UIbackgroundColor (LiveDropMenu layout_A (no_menu_options\<lparr>o_backgroundColor := Some ''''\<rparr>))
       = ''#555''
   \<and> p_UIbackgroundColor (LiveDropMenu layout_A (no_menu_options\<lparr>o_backgroundColor := Some ''''\<rparr>))
       \<noteq> ''''"
  by (simp add: menu_eval)

section \<open>Listeners of the menu\<close>

text \<open>
  Claim C2 fails on the code, for the menu.  A fresh menu has no listener on
  \<open>document\<close>.  After one complete cycle (a press on the closed box, a move, a press and
  a release on the overlay) the overlay is hidden again and \<open>document\<close> still holds
  \<open>secondMouseDownListener\<close> for \<open>mousedown\<close>: one listener more than before.
\<close>

theorem menu_cycle_leaves_document_listener:
  "documentListeners menu_ABC = []
   \<and> ddCanvas_visibility (run_menu click_cycle menu_ABC) = hidden
   \<and> documentListeners (run_menu click_cycle menu_ABC) = [(mousedown, Ref_secondMouseDownListener)]"
  by (simp add: click_cycle_def menu_eval parseInt_12px)

lemma run_listener_keeps_second:
  "(mousedown, Ref_secondMouseDownListener) \<in> set (documentListeners m) \<Longrightarrow>
   (mousedown, Ref_secondMouseDownListener) \<in> set (documentListeners (run_listener l lay e m))"
  by (cases l)
     (simp_all add: mouseDownListener_def secondMouseDownListener_def mouseMoveListener_def
        mouseUpListener_def notifyObservers_def addEventListener_def removeEventListener_def
        Let_def)

lemma fold_run_listener_keeps_second:
  "(mousedown, Ref_secondMouseDownListener) \<in> set (documentListeners m) \<Longrightarrow>
   (mousedown, Ref_secondMouseDownListener)
     \<in> set (documentListeners (fold (\<lambda>l. run_listener l lay e) ls m))"
  by (induction ls arbitrary: m) (simp_all add: run_listener_keeps_second)

lemma dispatch_menu_keeps_second:
  assumes "(mousedown, Ref_secondMouseDownListener) \<in> set (documentListeners m)"
  shows "(mousedown, Ref_secondMouseDownListener) \<in> set (documentListeners (dispatch_menu lay e m))"
  using assms
  by (simp add: dispatch_menu_def fire_def Let_def fold_run_listener_keeps_second)

text \<open>
  No handler removes \<open>secondMouseDownListener\<close>: once it is on \<open>document\<close> it stays there
  through every run of events.
\<close>

theorem document_listener_never_removed:
  assumes "(mousedown, Ref_secondMouseDownListener) \<in> set (documentListeners m)"
  shows "(mousedown, Ref_secondMouseDownListener) \<in> set (documentListeners (run_menu evs m))"
  using assms unfolding run_menu_def
  by (induction evs arbitrary: m) (simp_all add: dispatch_menu_keeps_second)

text \<open>The theorem at the menu \<open>[A, B, C]\<close>, opened and then taken through a click cycle.\<close>

theorem document_listener_never_removed_witness:
  "(mousedown, Ref_secondMouseDownListener)
     \<in> set (documentListeners (run_menu click_cycle (mouseDownListener menu_ABC)))"
proof -
  have "(mousedown, Ref_secondMouseDownListener) \<in> set (documentListeners (mouseDownListener menu_ABC))"
    by (simp add: menu_eval)
  then show ?thesis by (rule document_listener_never_removed)
qed

text \<open>
  \<open>mouseUpListener\<close> is attached by \<open>secondMouseDownListener\<close> only, on a press whose target
  is not the closed box.  A press on the closed box, a move to the third row and a
  release there run no listener at the release: the overlay stays visible, the third row
  stays hovered, nothing is selected and no observer is called.
\<close>

theorem press_drag_release_leaves_menu_open:
  "ddCanvas_visibility (run_menu press_drag_release (subscribe 1 2 menu_ABC)) = visible
   \<and> p_hoverItemNum (run_menu press_drag_release (subscribe 1 2 menu_ABC)) = Fin 2
   \<and> p_selectedItemNum (run_menu press_drag_release (subscribe 1 2 menu_ABC)) = Fin 0
   \<and> menu_calls (run_menu press_drag_release (subscribe 1 2 menu_ABC)) = []
   \<and> documentListeners (run_menu press_drag_release (subscribe 1 2 menu_ABC))
       = [(mousedown, Ref_secondMouseDownListener)]"
  by (simp add: press_drag_release_def menu_eval parseInt_12px)

end
